theory Spec2Isabelle
  imports Complex_Main "HOL-Library.Multiset"
begin

section \<open>The course platform (src/LABA/course\_platform.py)\<close>

text \<open>
  A shallow embedding of the classes \<open>Course\<close>, \<open>ProgrammingCourse\<close>,
  \<open>DesignCourse\<close>, \<open>ScienceCourse\<close> and \<open>Platform\<close>. Values have the types
  of the source's annotations: \<open>str\<close> is \<open>string\<close>, Python's unbounded \<open>int\<close>
  is \<open>int\<close>, \<open>List[str]\<close> is \<open>string list\<close>. A raised exception is a value
  of \<open>error\<close>; a method that mutates its object returns the object's new state.
\<close>

subsection \<open>Exceptions\<close>

text \<open>
  \<open>CourseFullError\<close> is the exception class of the module; \<open>KeyError\<close> is what
  \<open>data["k"]\<close> raises on a missing key (it carries the key); \<open>ValueError\<close> is
  what \<open>duration_days\<close> raises. Each carries its argument. The others are the
  built-in classes that can leave \<open>load_from_json\<close> or are caught there:
  \<open>FileNotFoundError\<close> and \<open>PermissionError\<close> from \<open>open\<close>,
  \<open>UnicodeDecodeError\<close> from reading a file that is not UTF-8,
  \<open>JSONDecodeError\<close> from the JSON decoder, \<open>TypeError\<close> from iterating a value
  that is not iterable, \<open>AttributeError\<close> from calling \<open>get\<close> on a value that is
  not a \<open>dict\<close>.
\<close>

datatype error =
    CourseFullError string | KeyError string | ValueError string
  | FileNotFoundError | PermissionError | UnicodeDecodeError | JSONDecodeError
  | TypeError | AttributeError

subsection \<open>Courses\<close>

text \<open>
  The class of an object is a tag; a subclass carries its one extra attribute
  (\<open>language\<close>, \<open>software\<close>, \<open>field\<close>), the base class carries none.
\<close>

datatype variant = Base | Programming string | Design string | Science string

record course =
  title :: string
  instructor :: string
  start_date :: string
  end_date :: string
  max_students :: int
  students :: "string list"
  kind :: variant

text \<open>\<open>self.__class__.__name__\<close>\<close>

fun class_name :: "variant \<Rightarrow> string" where
  "class_name Base = ''Course''"
| "class_name (Programming l) = ''ProgrammingCourse''"
| "class_name (Design s) = ''DesignCourse''"
| "class_name (Science f) = ''ScienceCourse''"

text \<open>The constructors: \<open>__init__\<close> stores its arguments and an empty student list.\<close>

definition Course :: "string \<Rightarrow> string \<Rightarrow> string \<Rightarrow> string \<Rightarrow> int \<Rightarrow> course" where
  "Course t i s e m =
     \<lparr>title = t, instructor = i, start_date = s, end_date = e, max_students = m,
      students = [], kind = Base\<rparr>"

definition ProgrammingCourse ::
  "string \<Rightarrow> string \<Rightarrow> string \<Rightarrow> string \<Rightarrow> int \<Rightarrow> string \<Rightarrow> course" where
  "ProgrammingCourse t i s e m language = (Course t i s e m)\<lparr>kind := Programming language\<rparr>"

definition DesignCourse ::
  "string \<Rightarrow> string \<Rightarrow> string \<Rightarrow> string \<Rightarrow> int \<Rightarrow> string \<Rightarrow> course" where
  "DesignCourse t i s e m software = (Course t i s e m)\<lparr>kind := Design software\<rparr>"

definition ScienceCourse ::
  "string \<Rightarrow> string \<Rightarrow> string \<Rightarrow> string \<Rightarrow> int \<Rightarrow> string \<Rightarrow> course" where
  "ScienceCourse t i s e m field = (Course t i s e m)\<lparr>kind := Science field\<rparr>"

text \<open>The properties \<open>language\<close>, \<open>software\<close> and \<open>field\<close>; each exists on its own
  subclass only (\<open>None\<close>: the object has no such attribute).\<close>

fun language :: "course \<Rightarrow> string option" where
  "language c = (case kind c of Programming l \<Rightarrow> Some l | _ \<Rightarrow> None)"

fun software :: "course \<Rightarrow> string option" where
  "software c = (case kind c of Design s \<Rightarrow> Some s | _ \<Rightarrow> None)"

fun field :: "course \<Rightarrow> string option" where
  "field c = (case kind c of Science f \<Rightarrow> Some f | _ \<Rightarrow> None)"

subsubsection \<open>add\_student\<close>




subsubsection \<open>completion\_rate\<close>

text \<open>
  \<^verbatim>\<open>
  if self.__max_students == 0:
      return 0.0
  return (len(self.__students) / self.__max_students) * 100
  \<close>
  The quotient and the product are taken in the reals: the model gives the exact value
  that Python's float result approximates.
\<close>

definition completion_rate :: "course \<Rightarrow> real" where
  "completion_rate c =
     (if max_students c = 0 then 0
      else (real (length (students c)) / real_of_int (max_students c)) * 100)"

subsubsection \<open>duration\_days\<close>

text \<open>
  \<^verbatim>\<open>
  try:
      start = datetime.strptime(self.__start_date, "%Y-%m-%d")
      end = datetime.strptime(self.__end_date, "%Y-%m-%d")
      return (end - start).days
  except ValueError as e:
      raise ValueError("Invalid date format. Use 'YYYY-MM-DD'.") from e
  \<close>
  The date parser belongs to the standard library, not to this repository; it is the
  parameter \<open>strptime\<close>, which gives the day number of the date a string denotes
  under the format \<open>%Y-%m-%d\<close>, or \<open>None\<close> where the library raises \<open>ValueError\<close>.
  Both values are midnights, so \<open>(end - start).days\<close> is the difference of the day
  numbers.
\<close>

definition date_message :: string where
  "date_message = ''Invalid date format. Use '' @ [CHR 0x27] @ ''YYYY-MM-DD'' @ [CHR 0x27] @ ''.''"

definition duration_days :: "(string \<Rightarrow> int option) \<Rightarrow> course \<Rightarrow> error + int" where
  "duration_days strptime c =
     (case strptime (start_date c) of
        None \<Rightarrow> Inl (ValueError date_message)
      | Some start \<Rightarrow>
          (case strptime (end_date c) of
             None \<Rightarrow> Inl (ValueError date_message)
           | Some end' \<Rightarrow> Inr (end' - start)))"

subsection \<open>Records: to\_dict and from\_dict\<close>

text \<open>
  The \<open>dict\<close> that \<open>to_dict\<close> builds and \<open>from_dict\<close> reads, restricted to the
  ten keys the two methods name. Each key is absent (\<open>None\<close>) or holds a value of the
  type the constructors' annotations give it.
\<close>

record course_dict =
  k_type :: "string option"
  k_title :: "string option"
  k_instructor :: "string option"
  k_start_date :: "string option"
  k_end_date :: "string option"
  k_max_students :: "int option"
  k_students :: "string list option"
  k_language :: "string option"
  k_software :: "string option"
  k_field :: "string option"

text \<open>
  \<open>to_dict\<close> is defined once, in \<open>Course\<close>; no subclass overrides it. It writes the
  seven keys below and no other.
\<close>

definition to_dict :: "course \<Rightarrow> course_dict" where
  "to_dict c =
     \<lparr>k_type = Some (class_name (kind c)),
      k_title = Some (title c),
      k_instructor = Some (instructor c),
      k_start_date = Some (start_date c),
      k_end_date = Some (end_date c),
      k_max_students = Some (max_students c),
      k_students = Some (students c),
      k_language = None, k_software = None, k_field = None\<rparr>"

text \<open>\<open>data[key]\<close> raises \<open>KeyError(key)\<close> on an absent key; \<open>data.get(key, default)\<close>
  gives the default.\<close>

definition getitem :: "'a option \<Rightarrow> string \<Rightarrow> error + 'a" where
  "getitem v key = (case v of None \<Rightarrow> Inl (KeyError key) | Some x \<Rightarrow> Inr x)"

definition dict_get :: "'a option \<Rightarrow> 'a \<Rightarrow> 'a" where
  "dict_get v dflt = (case v of None \<Rightarrow> dflt | Some x \<Rightarrow> x)"

text \<open>
  The five subscripts that every branch of \<open>from_dict\<close> evaluates, in the order of its
  keyword arguments; the first absent key raises.
\<close>

definition required_fields ::
  "course_dict \<Rightarrow> error + (string \<times> string \<times> string \<times> string \<times> int)" where
  "required_fields data =
     (case getitem (k_title data) ''title'' of Inl err \<Rightarrow> Inl err | Inr t \<Rightarrow>
     (case getitem (k_instructor data) ''instructor'' of Inl err \<Rightarrow> Inl err | Inr i \<Rightarrow>
     (case getitem (k_start_date data) ''start_date'' of Inl err \<Rightarrow> Inl err | Inr s \<Rightarrow>
     (case getitem (k_end_date data) ''end_date'' of Inl err \<Rightarrow> Inl err | Inr e \<Rightarrow>
     (case getitem (k_max_students data) ''max_students'' of Inl err \<Rightarrow> Inl err | Inr m \<Rightarrow>
        Inr (t, i, s, e, m))))))"

text \<open>
  \<open>from_dict\<close>: the branch is chosen by \<open>data.get("type")\<close>, the constructor of the
  branch is called, and the attribute \<open>_Course__students\<close> is assigned directly.
\<close>

definition from_dict :: "course_dict \<Rightarrow> error + course" where
  "from_dict data =
     (let course_type = k_type data in
      case
        (if course_type = Some ''ProgrammingCourse'' then
           (case required_fields data of Inl err \<Rightarrow> Inl err
            | Inr (t, i, s, e, m) \<Rightarrow>
                Inr (ProgrammingCourse t i s e m (dict_get (k_language data) '''')))
         else if course_type = Some ''DesignCourse'' then
           (case required_fields data of Inl err \<Rightarrow> Inl err
            | Inr (t, i, s, e, m) \<Rightarrow>
                Inr (DesignCourse t i s e m (dict_get (k_software data) '''')))
         else if course_type = Some ''ScienceCourse'' then
           (case required_fields data of Inl err \<Rightarrow> Inl err
            | Inr (t, i, s, e, m) \<Rightarrow>
                Inr (ScienceCourse t i s e m (dict_get (k_field data) '''')))
         else
           (case required_fields data of Inl err \<Rightarrow> Inl err
            | Inr (t, i, s, e, m) \<Rightarrow> Inr (Course t i s e m)))
      of Inl err \<Rightarrow> Inl err
       | Inr c \<Rightarrow> Inr (c\<lparr>students := dict_get (k_students data) []\<rparr>))"

subsection \<open>The platform\<close>

record platform =
  name :: string
  courses :: "course list"

definition Platform :: "string \<Rightarrow> platform" where
  "Platform n = \<lparr>name = n, courses = []\<rparr>"

definition add_course :: "course \<Rightarrow> platform \<Rightarrow> platform" where
  "add_course c p = p\<lparr>courses := courses p @ [c]\<rparr>"

subsubsection \<open>remove\_course\<close>

text \<open>
  \<^verbatim>\<open>
  for i, course in enumerate(self.__courses):
      if course.title == title:
          del self.__courses[i]
          return True
  return False
  \<close>
  The loop, from index \<open>i\<close> on: the returned flag and the list after the call.
\<close>

function remove_course_from :: "nat \<Rightarrow> string \<Rightarrow> course list \<Rightarrow> bool \<times> course list" where
  "remove_course_from i t cs =
     (if i < length cs then
        (if title (cs ! i) = t then (True, take i cs @ drop (Suc i) cs)
         else remove_course_from (Suc i) t cs)
      else (False, cs))"
  by pat_completeness auto
termination
  by (relation "measure (\<lambda>(i, t, cs). length cs - i)") auto

declare remove_course_from.simps [simp del]

definition remove_course :: "string \<Rightarrow> platform \<Rightarrow> bool \<times> platform" where
  "remove_course t p =
     (case remove_course_from 0 t (courses p) of (found, cs) \<Rightarrow> (found, p\<lparr>courses := cs\<rparr>))"

subsubsection \<open>get\_most\_popular\<close>

text \<open>
  \<^verbatim>\<open>
  return sorted(self.__courses, key=lambda c: len(c.students), reverse=True)[:n]
  \<close>
  \<open>sorted\<close> is stable, also with \<open>reverse=True\<close>: the list is reversed, sorted
  ascending by a stable sort, and reversed again. The slice \<open>xs[:n]\<close> takes
  \<open>n\<close> elements for \<open>n \<ge> 0\<close> and all but the last \<open>-n\<close> for \<open>n < 0\<close>.
\<close>

definition sorted_reverse :: "('a \<Rightarrow> nat) \<Rightarrow> 'a list \<Rightarrow> 'a list" where
  "sorted_reverse key xs = rev (sort_key key (rev xs))"

definition slice_to :: "int \<Rightarrow> 'a list \<Rightarrow> 'a list" where
  "slice_to n xs =
     (if n \<ge> 0 then take (nat n) xs else take (nat (int (length xs) + n)) xs)"

definition get_most_popular :: "int \<Rightarrow> platform \<Rightarrow> course list" where
  "get_most_popular n p =
     slice_to n (sorted_reverse (\<lambda>c. length (students c)) (courses p))"

text \<open>The call without an argument: \<open>n: int = 3\<close>.\<close>

definition get_most_popular_default :: "platform \<Rightarrow> course list" where
  "get_most_popular_default p = get_most_popular 3 p"

subsubsection \<open>load\_from\_json\<close>

text \<open>
  \<^verbatim>\<open>
  try:
      with open(filename, 'r', encoding='utf-8') as f:
          data = json.load(f)
      self.__courses = [Course.from_dict(item) for item in data]
  except FileNotFoundError:
      print(f"File {filename} not found.")
  except json.JSONDecodeError:
      print(f"Error reading JSON from {filename}.")
  \<close>
  The file system and the JSON decoder belong to the environment and the standard
  library; they are the parameters \<open>read\<close> and \<open>json_load\<close>. \<open>read\<close> gives the
  text of a file, or the exception that opening or reading it raises
  (\<open>FileNotFoundError\<close>, \<open>PermissionError\<close>, \<open>UnicodeDecodeError\<close> for bytes that
  are not UTF-8). \<open>json_load\<close> gives the decoded document, or the exception of the
  decoder (\<open>JSONDecodeError\<close> for a text that is not JSON).

  A decoded document is any JSON value. What the loop does with it depends on its shape
  only: an array is iterated over its elements; an object is iterated over its keys and a
  string over its characters, both of which are strings; a number, \<open>true\<close>, \<open>false\<close>
  or \<open>null\<close> is not iterable. An element that is an object is a record (read through
  the keys that \<open>from_dict\<close> names, with values of the annotated types); any other
  element has no method \<open>get\<close>.
\<close>

datatype json_item = JRecord course_dict | JNotObject

datatype json_doc =
    JArray "json_item list" | JObject "string list" | JString string | JNotIterable

text \<open>\<open>for item in data\<close>: the items, or \<open>TypeError\<close>.\<close>

fun iterate :: "json_doc \<Rightarrow> error + json_item list" where
  "iterate (JArray items) = Inr items"
| "iterate (JObject keys) = Inr (map (\<lambda>k. JNotObject) keys)"
| "iterate (JString s) = Inr (map (\<lambda>ch. JNotObject) s)"
| "iterate JNotIterable = Inl TypeError"

text \<open>\<open>Course.from_dict(item)\<close>: the first statement, \<open>data.get("type")\<close>, raises
  \<open>AttributeError\<close> on an item that is not a \<open>dict\<close>.\<close>

fun from_item :: "json_item \<Rightarrow> error + course" where
  "from_item (JRecord data) = from_dict data"
| "from_item JNotObject = Inl AttributeError"

text \<open>The list comprehension: it stops at the first item that raises.\<close>

fun from_items :: "json_item list \<Rightarrow> error + course list" where
  "from_items [] = Inr []"
| "from_items (item # items) =
     (case from_item item of Inl err \<Rightarrow> Inl err
      | Inr c \<Rightarrow> (case from_items items of Inl err \<Rightarrow> Inl err | Inr cs \<Rightarrow> Inr (c # cs)))"

text \<open>The body of the \<open>try\<close> statement, up to the assignment: the new course list, or
  the exception raised.\<close>

definition load_body ::
  "(string \<Rightarrow> error + string) \<Rightarrow> (string \<Rightarrow> error + json_doc) \<Rightarrow> string
     \<Rightarrow> error + course list" where
  "load_body read json_load filename =
     (case read filename of
        Inl err \<Rightarrow> Inl err
      | Inr contents \<Rightarrow>
          (case json_load contents of
             Inl err \<Rightarrow> Inl err
           | Inr data \<Rightarrow>
               (case iterate data of
                  Inl err \<Rightarrow> Inl err
                | Inr items \<Rightarrow> from_items items)))"

text \<open>The outcome of a call: the exception that leaves it (if any), the lines printed,
  and the platform after the call. The two \<open>except\<close> clauses catch their class wherever
  in the body it was raised; every other exception leaves the call.\<close>

record load_result =
  raised :: "error option"
  printed :: "string list"
  after :: platform

definition load_from_json ::
  "(string \<Rightarrow> error + string) \<Rightarrow> (string \<Rightarrow> error + json_doc) \<Rightarrow> string \<Rightarrow> platform
     \<Rightarrow> load_result" where
  "load_from_json read json_load filename p =
     (case load_body read json_load filename of
        Inr cs \<Rightarrow> \<lparr>raised = None, printed = [], after = p\<lparr>courses := cs\<rparr>\<rparr>
      | Inl err \<Rightarrow>
          (if err = FileNotFoundError then
             \<lparr>raised = None, printed = [''File '' @ filename @ '' not found.''], after = p\<rparr>
           else if err = JSONDecodeError then
             \<lparr>raised = None, printed = [''Error reading JSON from '' @ filename @ ''.''],
              after = p\<rparr>
           else \<lparr>raised = Some err, printed = [], after = p\<rparr>))"

section \<open>Properties\<close>

subsection \<open>Reading and writing records\<close>

lemma required_fields_present:
  "k_title d = Some t \<Longrightarrow> k_instructor d = Some i \<Longrightarrow> k_start_date d = Some s \<Longrightarrow>
   k_end_date d = Some e \<Longrightarrow> k_max_students d = Some m \<Longrightarrow>
   required_fields d = Inr (t, i, s, e, m)"
  by (simp add: required_fields_def getitem_def)



lemma from_dict_Inr:
  "required_fields d = Inr (t, i, s, e, m) \<Longrightarrow>
   from_dict d =
     Inr \<lparr>title = t, instructor = i, start_date = s, end_date = e, max_students = m,
          students = dict_get (k_students d) [],
          kind =
            (if k_type d = Some ''ProgrammingCourse''
               then Programming (dict_get (k_language d) '''')
             else if k_type d = Some ''DesignCourse''
               then Design (dict_get (k_software d) '''')
             else if k_type d = Some ''ScienceCourse''
               then Science (dict_get (k_field d) '''')
             else Base)\<rparr>"
  by (simp add: from_dict_def ProgrammingCourse_def DesignCourse_def ScienceCourse_def
      Course_def)

lemma required_fields_to_dict:
  "required_fields (to_dict c) =
     Inr (title c, instructor c, start_date c, end_date c, max_students c)"
  by (simp add: required_fields_def getitem_def to_dict_def)

text \<open>
  What a round trip does keep: the class, the five constructor arguments of \<open>Course\<close>
  and the student list, whatever its length. The extra attribute of a subclass comes
  back as the empty string, since \<open>to_dict\<close> never writes it.
\<close>

lemma from_dict_to_dict:
  "from_dict (to_dict c) =
     Inr \<lparr>title = title c, instructor = instructor c, start_date = start_date c,
          end_date = end_date c, max_students = max_students c, students = students c,
          kind = (case kind c of Base \<Rightarrow> Base | Programming l \<Rightarrow> Programming ''''
                  | Design s \<Rightarrow> Design '''' | Science f \<Rightarrow> Science '''')\<rparr>"
  by (cases "kind c")
     (simp_all add: from_dict_Inr [OF required_fields_to_dict],
      simp_all add: to_dict_def dict_get_def)

lemma from_items_map: "from_items items = Inr cs \<Longrightarrow> map from_item items = map Inr cs"
  by (induction items arbitrary: cs) (auto split: sum.splits)


text \<open>Whatever happens, a call that prints or raises leaves the platform as it was.\<close>

lemma load_from_json_failure_keeps_platform:
  "raised (load_from_json read json_load filename p) \<noteq> None \<or>
   printed (load_from_json read json_load filename p) \<noteq> [] \<Longrightarrow>
   after (load_from_json read json_load filename p) = p"
  by (auto simp: load_from_json_def split: sum.splits if_splits)




subsection \<open>Enrolment\<close>




text \<open>Within capacity the rate is a percentage.\<close>

lemma completion_rate_within_capacity:
  assumes "int (length (students c)) \<le> max_students c"
  shows "0 \<le> completion_rate c \<and> completion_rate c \<le> 100"
proof (cases "max_students c = 0")
  case True
  then show ?thesis by (simp add: completion_rate_def)
next
  case False
  with assms have pos: "0 < max_students c" by linarith
  have "real (length (students c)) \<le> real_of_int (max_students c)"
    using assms by linarith
  with pos show ?thesis
    by (simp add: completion_rate_def divide_le_eq)
qed

subsection \<open>Sorting and slicing\<close>

lemma sorted_reverse_sorted: "sorted_wrt (\<lambda>a b. key a \<ge> key b) (sorted_reverse key xs)"
proof -
  have "sorted (map key (sort_key key (rev xs)))"
    by (rule sorted_sort_key)
  then have "sorted_wrt (\<lambda>a b. key a \<le> key b) (sort_key key (rev xs))"
    by (simp only: sorted_map)
  then show ?thesis
    by (simp only: sorted_reverse_def sorted_wrt_rev)
qed

lemma sorted_reverse_mset: "mset (sorted_reverse key xs) = mset xs"
  by (simp add: sorted_reverse_def)

lemma sorted_reverse_stable:
  "filter (\<lambda>x. key x = k) (sorted_reverse key xs) = filter (\<lambda>x. key x = k) xs"
proof -
  have "filter (\<lambda>x. key x = k) (sorted_reverse key xs)
          = rev (filter (\<lambda>x. key x = k) (sort_key key (rev xs)))"
    unfolding sorted_reverse_def by (rule rev_filter [symmetric])
  also have "\<dots> = rev (filter (\<lambda>x. key x = k) (rev xs))"
    by (simp only: sort_key_stable)
  also have "\<dots> = filter (\<lambda>x. key x = k) xs"
    by (simp only: rev_filter [symmetric] rev_rev_ident)
  finally show ?thesis .
qed

lemma take_length_take: "take (length (take k xs)) xs = take k xs"
  by (cases "k \<le> length xs") (simp_all add: min_def)

lemma slice_to_prefix: "slice_to n xs = take (length (slice_to n xs)) xs"
  by (simp add: slice_to_def take_length_take del: length_take)

lemma filter_take_prefix:
  "filter P (take j xs) = take (length (filter P (take j xs))) (filter P xs)"
proof -
  have "filter P xs = filter P (take j xs) @ filter P (drop j xs)"
    by (simp flip: filter_append)
  then show ?thesis by simp
qed

subsection \<open>Removing a course\<close>

lemma remove_course_from_none:
  "\<forall>j. i \<le> j \<and> j < length cs \<longrightarrow> title (cs ! j) \<noteq> t \<Longrightarrow>
   remove_course_from i t cs = (False, cs)"
proof (induction i t cs rule: remove_course_from.induct)
  case (1 i t cs)
  show ?case
  proof (cases "i < length cs")
    case True
    with 1 show ?thesis by (subst remove_course_from.simps) auto
  next
    case False
    then show ?thesis by (subst remove_course_from.simps) simp
  qed
qed

lemma remove_course_from_found:
  "i \<le> j \<Longrightarrow> j < length cs \<Longrightarrow> title (cs ! j) = t \<Longrightarrow>
   \<forall>k. i \<le> k \<and> k < j \<longrightarrow> title (cs ! k) \<noteq> t \<Longrightarrow>
   remove_course_from i t cs = (True, take j cs @ drop (Suc j) cs)"
proof (induction i t cs rule: remove_course_from.induct)
  case (1 i t cs)
  show ?case
  proof (cases "i = j")
    case True
    with 1 show ?thesis by (subst remove_course_from.simps) simp
  next
    case False
    with 1 have "i < j" "i < length cs" "title (cs ! i) \<noteq> t" by auto
    moreover have "remove_course_from (Suc i) t cs = (True, take j cs @ drop (Suc j) cs)"
      using 1 \<open>i < j\<close> \<open>i < length cs\<close> \<open>title (cs ! i) \<noteq> t\<close> by (intro "1.IH") auto
    ultimately show ?thesis by (subst remove_course_from.simps) simp
  qed
qed

lemma remove_course_from_first:
  assumes "\<forall>x \<in> set xs. title x \<noteq> t" and "title c = t"
  shows "remove_course_from 0 t (xs @ c # ys) = (True, xs @ ys)"
proof -
  have "remove_course_from 0 t (xs @ c # ys)
          = (True, take (length xs) (xs @ c # ys) @ drop (Suc (length xs)) (xs @ c # ys))"
    using assms by (intro remove_course_from_found) (auto simp: nth_append)
  then show ?thesis by simp
qed

lemma remove_course_from_absent:
  assumes "\<forall>x \<in> set cs. title x \<noteq> t"
  shows "remove_course_from 0 t cs = (False, cs)"
  using assms by (intro remove_course_from_none) auto

section \<open>The claims\<close>

subsection \<open>C1: the round trip through to\_dict and from\_dict\<close>

text \<open>
  Claim C1 says that \<open>from_dict (to_dict c)\<close> reproduces \<open>c\<close>: its class, title,
  instructor, dates, capacity, student list and the extra attribute of its subclass.
  Lemma \<open>from_dict_to_dict\<close> above gives all of that except the extra attribute. For
  the programming course of \<open>main.py\<close> the round trip returns a course whose
  \<open>language\<close> is the empty string instead of \<open>Python\<close>: \<open>from_dict\<close> reads the
  key \<open>language\<close>, which \<open>to_dict\<close> never wrote.
\<close>

theorem roundtrip_drops_language:
  "from_dict (to_dict (ProgrammingCourse ''Python for Beginners'' ''Ivanov I.I.''
                         ''2025-01-10'' ''2025-04-10'' 30 ''Python''))
     = Inr (ProgrammingCourse ''Python for Beginners'' ''Ivanov I.I.''
              ''2025-01-10'' ''2025-04-10'' 30 '''')
   \<and> from_dict (to_dict (ProgrammingCourse ''Python for Beginners'' ''Ivanov I.I.''
                         ''2025-01-10'' ''2025-04-10'' 30 ''Python''))
     \<noteq> Inr (ProgrammingCourse ''Python for Beginners'' ''Ivanov I.I.''
              ''2025-01-10'' ''2025-04-10'' 30 ''Python'')"
  by (simp add: from_dict_to_dict ProgrammingCourse_def Course_def)

subsection \<open>C5: the keys that to\_dict writes\<close>

text \<open>
  Claim C5 says that the record of a subclass object holds exactly one of the keys
  \<open>language\<close>, \<open>software\<close>, \<open>field\<close>. The record that \<open>to_dict\<close> builds for the
  programming course of \<open>main.py\<close> has the tag \<open>ProgrammingCourse\<close>, the five
  attributes and the student list, and none of the three keys.
\<close>

theorem to_dict_writes_no_language:
  "to_dict (ProgrammingCourse ''Python for Beginners'' ''Ivanov I.I.''
              ''2025-01-10'' ''2025-04-10'' 30 ''Python'')
     = \<lparr>k_type = Some ''ProgrammingCourse'', k_title = Some ''Python for Beginners'',
        k_instructor = Some ''Ivanov I.I.'', k_start_date = Some ''2025-01-10'',
        k_end_date = Some ''2025-04-10'', k_max_students = Some 30, k_students = Some [],
        k_language = None, k_software = None, k_field = None\<rparr>"
  by (simp add: to_dict_def ProgrammingCourse_def Course_def)

subsection \<open>C3: the completion rate\<close>

text \<open>
  Claim C3 says that \<open>completion_rate\<close> always lies between 0 and 100. A record with
  two students and \<open>max_students = 1\<close> is read by \<open>from_dict\<close> as it is, and the
  rate of the resulting course is 200 (in floating point too: \<open>2 / 1\<close> and
  \<open>2.0 * 100\<close> are exact).
\<close>

theorem completion_rate_above_100:
  "from_dict \<lparr>k_type = Some ''Course'', k_title = Some ''Algebra'',
              k_instructor = Some ''Ivanov I.I.'', k_start_date = Some ''2025-01-10'',
              k_end_date = Some ''2025-04-10'', k_max_students = Some 1,
              k_students = Some [''A'', ''B''],
              k_language = None, k_software = None, k_field = None\<rparr>
     = Inr \<lparr>title = ''Algebra'', instructor = ''Ivanov I.I.'', start_date = ''2025-01-10'',
            end_date = ''2025-04-10'', max_students = 1, students = [''A'', ''B''],
            kind = Base\<rparr>
   \<and> completion_rate
        \<lparr>title = ''Algebra'', instructor = ''Ivanov I.I.'', start_date = ''2025-01-10'',
         end_date = ''2025-04-10'', max_students = 1, students = [''A'', ''B''],
         kind = Base\<rparr> = 200"
  by (simp add: from_dict_Inr [OF required_fields_present] dict_get_def completion_rate_def)

subsection \<open>C2: capacity\<close>




subsection \<open>C4: the most popular courses\<close>

text \<open>
  Claim C4, as stated, fails for a negative \<open>n\<close>: the slice \<open>[:-1]\<close> of a list of
  two courses is its first course, not the empty list.
\<close>

theorem get_most_popular_negative:
  "get_most_popular (- 1)
     \<lparr>name = ''SuperLearn'',
      courses = [(Course ''Python'' ''Ivanov I.I.'' ''2025-01-10'' ''2025-04-10'' 30)
                   \<lparr>students := [''Sidorov Petr'']\<rparr>,
                 Course ''Design'' ''Petrova A.S.'' ''2025-02-01'' ''2025-05-01'' 25]\<rparr>
     = [(Course ''Python'' ''Ivanov I.I.'' ''2025-01-10'' ''2025-04-10'' 30)
          \<lparr>students := [''Sidorov Petr'']\<rparr>]"
  by (simp add: get_most_popular_def slice_to_def sorted_reverse_def Course_def)

text \<open>
  Claim C4, amended: \<open>get_most_popular n\<close> is a prefix of the courses sorted by
  descending \<open>len(students)\<close>, courses with equal counts keeping their insertion order;
  its length is \<open>min n total\<close> for \<open>n > 0\<close>, it is empty for \<open>n = 0\<close>, and for
  \<open>n < 0\<close> it is the sorted list without its last \<open>-n\<close> courses; \<open>n\<close> defaults
  to 3.
\<close>

theorem get_most_popular_ranking:
  "sorted_wrt (\<lambda>a b. length (students a) \<ge> length (students b)) (get_most_popular n p)
   \<and> (\<forall>k. filter (\<lambda>c. length (students c) = k) (get_most_popular n p)
          = take (length (filter (\<lambda>c. length (students c) = k) (get_most_popular n p)))
              (filter (\<lambda>c. length (students c) = k) (courses p)))
   \<and> get_most_popular n p
       = take (length (get_most_popular n p))
           (sorted_reverse (\<lambda>c. length (students c)) (courses p))
   \<and> mset (sorted_reverse (\<lambda>c. length (students c)) (courses p)) = mset (courses p)
   \<and> (0 < n \<longrightarrow> length (get_most_popular n p) = min (nat n) (length (courses p)))
   \<and> (n = 0 \<longrightarrow> get_most_popular n p = [])
   \<and> (n < 0 \<longrightarrow> length (get_most_popular n p) = length (courses p) - nat (- n))
   \<and> get_most_popular_default p = get_most_popular 3 p"
proof -
  let ?key = "\<lambda>c. length (students c)"
  let ?full = "sorted_reverse ?key (courses p)"
  let ?r = "get_most_popular n p"
  have pre: "?r = take (length ?r) ?full"
    unfolding get_most_popular_def by (rule slice_to_prefix)
  have "sorted_wrt (\<lambda>a b. ?key a \<ge> ?key b) (take (length ?r) ?full)"
    by (rule sorted_wrt_take) (rule sorted_reverse_sorted)
  with pre have srt: "sorted_wrt (\<lambda>a b. ?key a \<ge> ?key b) ?r" by simp
  have stable: "filter (\<lambda>c. ?key c = k) ?r
                  = take (length (filter (\<lambda>c. ?key c = k) ?r)) (filter (\<lambda>c. ?key c = k) (courses p))"
    for k
  proof -
    have "filter (\<lambda>c. ?key c = k) (take (length ?r) ?full)
            = take (length (filter (\<lambda>c. ?key c = k) (take (length ?r) ?full)))
                (filter (\<lambda>c. ?key c = k) ?full)"
      by (rule filter_take_prefix)
    then show ?thesis
      using pre by (simp only: sorted_reverse_stable)
  qed
  have len: "length ?full = length (courses p)"
    by (simp add: sorted_reverse_def)
  have pos: "0 < n \<longrightarrow> length ?r = min (nat n) (length (courses p))"
    by (simp add: get_most_popular_def slice_to_def len min.commute)
  have zero: "n = 0 \<longrightarrow> ?r = []"
    by (simp add: get_most_popular_def slice_to_def)
  have neg: "n < 0 \<longrightarrow> length ?r = length (courses p) - nat (- n)"
    by (auto simp: get_most_popular_def slice_to_def len)
  show ?thesis
    using srt stable pre pos zero neg
    by (simp only: sorted_reverse_mset get_most_popular_default_def simp_thms)
qed


text \<open>Three courses with 2, 2 and 3 students: the tie keeps the insertion order.\<close>

theorem get_most_popular_ranking_witness:
  "get_most_popular 2
     \<lparr>name = ''SuperLearn'',
      courses = [(Course ''Python'' ''Ivanov I.I.'' ''2025-01-10'' ''2025-04-10'' 30)
                   \<lparr>students := [''S1'', ''S2'']\<rparr>,
                 (Course ''Design'' ''Petrova A.S.'' ''2025-02-01'' ''2025-05-01'' 25)
                   \<lparr>students := [''D1'', ''D2'']\<rparr>,
                 (Course ''Physics'' ''Orlov O.O.'' ''2025-02-01'' ''2025-05-01'' 25)
                   \<lparr>students := [''P1'', ''P2'', ''P3'']\<rparr>]\<rparr>
     = [(Course ''Physics'' ''Orlov O.O.'' ''2025-02-01'' ''2025-05-01'' 25)
          \<lparr>students := [''P1'', ''P2'', ''P3'']\<rparr>,
        (Course ''Python'' ''Ivanov I.I.'' ''2025-01-10'' ''2025-04-10'' 30)
          \<lparr>students := [''S1'', ''S2'']\<rparr>]
   \<and> get_most_popular 0
     \<lparr>name = ''SuperLearn'',
      courses = [(Course ''Python'' ''Ivanov I.I.'' ''2025-01-10'' ''2025-04-10'' 30)
                   \<lparr>students := [''S1'', ''S2'']\<rparr>,
                 (Course ''Design'' ''Petrova A.S.'' ''2025-02-01'' ''2025-05-01'' 25)
                   \<lparr>students := [''D1'', ''D2'']\<rparr>,
                 (Course ''Physics'' ''Orlov O.O.'' ''2025-02-01'' ''2025-05-01'' 25)
                   \<lparr>students := [''P1'', ''P2'', ''P3'']\<rparr>]\<rparr>
     = []
   \<and> length (get_most_popular (- 2)
     \<lparr>name = ''SuperLearn'',
      courses = [(Course ''Python'' ''Ivanov I.I.'' ''2025-01-10'' ''2025-04-10'' 30)
                   \<lparr>students := [''S1'', ''S2'']\<rparr>,
                 (Course ''Design'' ''Petrova A.S.'' ''2025-02-01'' ''2025-05-01'' 25)
                   \<lparr>students := [''D1'', ''D2'']\<rparr>,
                 (Course ''Physics'' ''Orlov O.O.'' ''2025-02-01'' ''2025-05-01'' 25)
                   \<lparr>students := [''P1'', ''P2'', ''P3'']\<rparr>]\<rparr>) = 1
   \<and> get_most_popular_default
     \<lparr>name = ''SuperLearn'',
      courses = [(Course ''Python'' ''Ivanov I.I.'' ''2025-01-10'' ''2025-04-10'' 30)
                   \<lparr>students := [''S1'', ''S2'']\<rparr>,
                 (Course ''Design'' ''Petrova A.S.'' ''2025-02-01'' ''2025-05-01'' 25)
                   \<lparr>students := [''D1'', ''D2'']\<rparr>,
                 (Course ''Physics'' ''Orlov O.O.'' ''2025-02-01'' ''2025-05-01'' 25)
                   \<lparr>students := [''P1'', ''P2'', ''P3'']\<rparr>]\<rparr>
     = [(Course ''Physics'' ''Orlov O.O.'' ''2025-02-01'' ''2025-05-01'' 25)
          \<lparr>students := [''P1'', ''P2'', ''P3'']\<rparr>,
        (Course ''Python'' ''Ivanov I.I.'' ''2025-01-10'' ''2025-04-10'' 30)
          \<lparr>students := [''S1'', ''S2'']\<rparr>,
        (Course ''Design'' ''Petrova A.S.'' ''2025-02-01'' ''2025-05-01'' 25)
          \<lparr>students := [''D1'', ''D2'']\<rparr>]"
proof -
  let ?p = "\<lparr>name = ''SuperLearn'',
      courses = [(Course ''Python'' ''Ivanov I.I.'' ''2025-01-10'' ''2025-04-10'' 30)
                   \<lparr>students := [''S1'', ''S2'']\<rparr>,
                 (Course ''Design'' ''Petrova A.S.'' ''2025-02-01'' ''2025-05-01'' 25)
                   \<lparr>students := [''D1'', ''D2'']\<rparr>,
                 (Course ''Physics'' ''Orlov O.O.'' ''2025-02-01'' ''2025-05-01'' 25)
                   \<lparr>students := [''P1'', ''P2'', ''P3'']\<rparr>]\<rparr>"
  show ?thesis
    using get_most_popular_ranking [of 2 ?p] get_most_popular_ranking [of 0 ?p]
      get_most_popular_ranking [of "- 2" ?p]
    by (simp add: get_most_popular_def get_most_popular_default_def slice_to_def
        sorted_reverse_def Course_def)
qed

subsection \<open>C6: loading\<close>




subsection \<open>C7: unknown tags and missing keys\<close>



subsection \<open>C8: removing a course\<close>

text \<open>
  Claim C8: \<open>remove_course title\<close> returns \<open>True\<close> exactly when some course has the
  title; it then removes the first such course and keeps all others in their order, so
  that the list is shorter by one; otherwise it returns \<open>False\<close> and the platform is
  unchanged.
\<close>

theorem remove_course_first_match:
  "(fst (remove_course t p) \<longleftrightarrow> (\<exists>c \<in> set (courses p). title c = t))
   \<and> ((\<exists>c \<in> set (courses p). title c = t) \<longrightarrow>
        (\<exists>xs c ys. courses p = xs @ c # ys \<and> title c = t \<and> (\<forall>x \<in> set xs. title x \<noteq> t) \<and>
           remove_course t p = (True, p\<lparr>courses := xs @ ys\<rparr>))
        \<and> Suc (length (courses (snd (remove_course t p)))) = length (courses p))
   \<and> ((\<forall>c \<in> set (courses p). title c \<noteq> t) \<longrightarrow> remove_course t p = (False, p))"
proof -
  have absent: "remove_course t p = (False, p)" if "\<forall>c \<in> set (courses p). title c \<noteq> t"
    using remove_course_from_absent [OF that] by (simp add: remove_course_def)
  have present:
    "\<exists>xs c ys. courses p = xs @ c # ys \<and> title c = t \<and> (\<forall>x \<in> set xs. title x \<noteq> t) \<and>
       remove_course t p = (True, p\<lparr>courses := xs @ ys\<rparr>)"
    if "\<exists>c \<in> set (courses p). title c = t"
  proof -
    from split_list_first_prop [OF that]
    obtain xs c ys where dec: "courses p = xs @ c # ys" "title c = t"
      "\<forall>x \<in> set xs. title x \<noteq> t" by blast
    from remove_course_from_first [OF dec(3) dec(2), of ys] dec(1)
    have "remove_course t p = (True, p\<lparr>courses := xs @ ys\<rparr>)"
      by (simp add: remove_course_def)
    with dec show ?thesis by blast
  qed
  have len: "Suc (length (courses (snd (remove_course t p)))) = length (courses p)"
    if "\<exists>c \<in> set (courses p). title c = t"
    using present [OF that] by auto
  have iff: "fst (remove_course t p) \<longleftrightarrow> (\<exists>c \<in> set (courses p). title c = t)"
  proof (cases "\<exists>c \<in> set (courses p). title c = t")
    case True
    with present [OF True] show ?thesis by auto
  next
    case False
    then have "\<forall>c \<in> set (courses p). title c \<noteq> t" by blast
    from absent [OF this] False show ?thesis by simp
  qed
  from absent present len iff show ?thesis by blast
qed

text \<open>Two courses share a title: the first of them goes. No course has the other title.\<close>

theorem remove_course_first_match_witness:
  "remove_course ''Design''
     \<lparr>name = ''SuperLearn'',
      courses = [Course ''Python'' ''Ivanov I.I.'' ''2025-01-10'' ''2025-04-10'' 30,
                 Course ''Design'' ''Petrova A.S.'' ''2025-02-01'' ''2025-05-01'' 25,
                 Course ''Design'' ''Orlov O.O.'' ''2025-03-01'' ''2025-06-01'' 20]\<rparr>
     = (True,
        \<lparr>name = ''SuperLearn'',
         courses = [Course ''Python'' ''Ivanov I.I.'' ''2025-01-10'' ''2025-04-10'' 30,
                    Course ''Design'' ''Orlov O.O.'' ''2025-03-01'' ''2025-06-01'' 20]\<rparr>)
   \<and> remove_course ''Physics''
     \<lparr>name = ''SuperLearn'',
      courses = [Course ''Python'' ''Ivanov I.I.'' ''2025-01-10'' ''2025-04-10'' 30,
                 Course ''Design'' ''Petrova A.S.'' ''2025-02-01'' ''2025-05-01'' 25,
                 Course ''Design'' ''Orlov O.O.'' ''2025-03-01'' ''2025-06-01'' 20]\<rparr>
     = (False,
        \<lparr>name = ''SuperLearn'',
         courses = [Course ''Python'' ''Ivanov I.I.'' ''2025-01-10'' ''2025-04-10'' 30,
                    Course ''Design'' ''Petrova A.S.'' ''2025-02-01'' ''2025-05-01'' 25,
                    Course ''Design'' ''Orlov O.O.'' ''2025-03-01'' ''2025-06-01'' 20]\<rparr>)"
  using remove_course_first_match [of "''Design''"
     "\<lparr>name = ''SuperLearn'',
      courses = [Course ''Python'' ''Ivanov I.I.'' ''2025-01-10'' ''2025-04-10'' 30,
                 Course ''Design'' ''Petrova A.S.'' ''2025-02-01'' ''2025-05-01'' 25,
                 Course ''Design'' ''Orlov O.O.'' ''2025-03-01'' ''2025-06-01'' 20]\<rparr>"]
  by (simp add: remove_course_def remove_course_from.simps Course_def)

subsection \<open>C9: the duration\<close>

text \<open>
  Claim C9: when both dates parse, \<open>duration_days\<close> returns the day number of
  \<open>end_date\<close> minus that of \<open>start_date\<close>, negative or not; it raises
  \<open>ValueError\<close> exactly when one of the two strings does not parse; and the
  constructors store the two strings as given, parsing nothing.
\<close>

theorem duration_days_difference:
  "(\<forall>a b. strptime (start_date c) = Some a \<and> strptime (end_date c) = Some b \<longrightarrow>
       duration_days strptime c = Inr (b - a))
   \<and> ((strptime (start_date c) = None \<or> strptime (end_date c) = None)
        \<longleftrightarrow> duration_days strptime c = Inl (ValueError date_message))
   \<and> (\<forall>err. duration_days strptime c = Inl err \<longrightarrow> err = ValueError date_message)
   \<and> start_date (Course t i s e m) = s \<and> end_date (Course t i s e m) = e
   \<and> start_date (ProgrammingCourse t i s e m x) = s \<and> end_date (ProgrammingCourse t i s e m x) = e
   \<and> start_date (DesignCourse t i s e m x) = s \<and> end_date (DesignCourse t i s e m x) = e
   \<and> start_date (ScienceCourse t i s e m x) = s \<and> end_date (ScienceCourse t i s e m x) = e"
  by (auto simp: duration_days_def Course_def ProgrammingCourse_def DesignCourse_def
      ScienceCourse_def split: option.splits)

text \<open>A parser that knows the two dates of \<open>main.py\<close> (by their proleptic Gregorian
  day numbers): 90 days forwards, -90 backwards, and a date in another format.\<close>

theorem duration_days_difference_witness:
  "duration_days
     (\<lambda>x. if x = ''2025-01-10'' then Some 739261
          else if x = ''2025-04-10'' then Some 739351 else None)
     (Course ''Python'' ''Ivanov I.I.'' ''2025-01-10'' ''2025-04-10'' 30) = Inr 90
   \<and> duration_days
     (\<lambda>x. if x = ''2025-01-10'' then Some 739261
          else if x = ''2025-04-10'' then Some 739351 else None)
     (Course ''Python'' ''Ivanov I.I.'' ''2025-04-10'' ''2025-01-10'' 30) = Inr (- 90)
   \<and> duration_days
     (\<lambda>x. if x = ''2025-01-10'' then Some 739261
          else if x = ''2025-04-10'' then Some 739351 else None)
     (Course ''Python'' ''Ivanov I.I.'' ''2025-01-10'' ''10.04.2025'' 30)
       = Inl (ValueError date_message)
   \<and> end_date (Course ''Python'' ''Ivanov I.I.'' ''2025-01-10'' ''10.04.2025'' 30)
       = ''10.04.2025''"
  using duration_days_difference [of
     "\<lambda>x. if x = ''2025-01-10'' then Some 739261
          else if x = ''2025-04-10'' then Some 739351 else None"
     "Course ''Python'' ''Ivanov I.I.'' ''2025-01-10'' ''2025-04-10'' 30"
     "''Python''" "''Ivanov I.I.''" "''2025-01-10''" "''10.04.2025''" 30 "''''"]
  by (simp add: duration_days_def Course_def)

subsection \<open>C10: a record without students\<close>

text \<open>
  Claim C10: for a record without the key \<open>students\<close> whose five required keys are
  present, \<open>from_dict\<close> succeeds, and the course it returns has an empty student list.
\<close>

theorem from_dict_students_default:
  assumes "k_students d = None"
    and "k_title d = Some t" and "k_instructor d = Some i" and "k_start_date d = Some s"
    and "k_end_date d = Some e" and "k_max_students d = Some m"
  shows "\<exists>c. from_dict d = Inr c \<and> students c = [] \<and> title c = t \<and> instructor c = i \<and>
             start_date c = s \<and> end_date c = e \<and> max_students c = m"
  using assms
  by (simp add: from_dict_Inr [OF required_fields_present] dict_get_def)

text \<open>A design course saved without its student list.\<close>

theorem from_dict_students_default_witness:
  "from_dict \<lparr>k_type = Some ''DesignCourse'', k_title = Some ''UI/UX Design'',
              k_instructor = Some ''Petrova A.S.'', k_start_date = Some ''2025-02-01'',
              k_end_date = Some ''2025-05-01'', k_max_students = Some 25,
              k_students = None,
              k_language = None, k_software = Some ''Figma'', k_field = None\<rparr>
     = Inr (DesignCourse ''UI/UX Design'' ''Petrova A.S.'' ''2025-02-01'' ''2025-05-01'' 25
              ''Figma'')
   \<and> students (DesignCourse ''UI/UX Design'' ''Petrova A.S.'' ''2025-02-01'' ''2025-05-01'' 25
              ''Figma'') = []"
  using from_dict_students_default [of
     "\<lparr>k_type = Some ''DesignCourse'', k_title = Some ''UI/UX Design'',
              k_instructor = Some ''Petrova A.S.'', k_start_date = Some ''2025-02-01'',
              k_end_date = Some ''2025-05-01'', k_max_students = Some 25,
              k_students = None,
              k_language = None, k_software = Some ''Figma'', k_field = None\<rparr>"
     "''UI/UX Design''" "''Petrova A.S.''" "''2025-02-01''" "''2025-05-01''" 25]
  by (simp add: from_dict_def required_fields_def getitem_def dict_get_def
      DesignCourse_def Course_def)

end
